theory Spec2Isabelle
  imports Main "HOL-Library.Char_ord"
begin

section \<open>Strings as Go has them\<close>

text \<open>
  A Go string is a sequence of bytes, here a \<^typ>\<open>string\<close>. The comparison operators
  on strings compare byte by byte, the first differing byte deciding, a proper prefix
  being the smaller string. \<open>string_less a b\<close> is Go's \<^verbatim>\<open>a < b\<close>, and Go's
  \<^verbatim>\<open>a > b\<close> is \<open>string_less b a\<close>.
\<close>

fun string_less :: "string \<Rightarrow> string \<Rightarrow> bool" where
  "string_less [] [] = False"
| "string_less [] (y # ys) = True"
| "string_less (x # xs) [] = False"
| "string_less (x # xs) (y # ys) =
     (if (of_char x :: nat) < of_char y then True
      else if (of_char y :: nat) < of_char x then False
      else string_less xs ys)"

definition string_greater :: "string \<Rightarrow> string \<Rightarrow> bool" where
  "string_greater a b = string_less b a"

text \<open>
  \<^verbatim>\<open>strings.Split(s, sep)\<close> for a separator of one byte, the only way main.go calls it
  (\<^verbatim>\<open>strings.Split(v, ".")\<close>): the substrings between the separators, in order. The
  scan keeps the bytes of the current substring in \<open>acc\<close> and closes it at every
  separator and at the end of the input.
\<close>

fun genSplit :: "string \<Rightarrow> string \<Rightarrow> char \<Rightarrow> string list" where
  "genSplit acc [] sep = [acc]"
| "genSplit acc (c # cs) sep =
     (if c = sep then acc # genSplit [] cs sep else genSplit (acc @ [c]) cs sep)"

definition Split :: "string \<Rightarrow> char \<Rightarrow> string list" where
  "Split s sep = genSplit [] s sep"

text \<open>
  Indexing a slice, \<^verbatim>\<open>xs[i]\<close>: Go panics with an index-out-of-range runtime error when
  \<open>i\<close> is not below the length. \<open>None\<close> is that panic.
\<close>

definition index :: "'a list \<Rightarrow> nat \<Rightarrow> 'a option" where
  "index xs i = (if i < length xs then Some (xs ! i) else None)"

section \<open>Errors and results\<close>

text \<open>
  The errors \<^verbatim>\<open>runPreChecks\<close> and \<^verbatim>\<open>runMigration\<close> build with \<^verbatim>\<open>fmt.Errorf\<close>, one
  constructor for each place in main.go, carrying the values the message is formatted
  from. \<open>errorString\<close> is the message, the text \<^verbatim>\<open>err.Error()\<close> returns.
\<close>

datatype migrateError =
    ParseSourceError string
  | MissingDatabaseError
  | ConnectSourceError string
  | ConnectTargetError string
  | QuerySourceVersionError string
  | QueryTargetVersionError string
  | VersionMismatchError string string
  | ImportError string

fun errorString :: "migrateError \<Rightarrow> string" where
  "errorString (ParseSourceError e) = ''failed to parse source uri: '' @ e"
| "errorString MissingDatabaseError =
     ''source-uri must contain a database reference (e.g. postgres://<user>:<pass>@<host>:<port>/<database>)''"
| "errorString (ConnectSourceError e) = ''failed to connect to source: '' @ e"
| "errorString (ConnectTargetError e) = ''failed to connect to target: '' @ e"
| "errorString (QuerySourceVersionError e) = ''failed to query source version: '' @ e"
| "errorString (QueryTargetVersionError e) = ''failed to query target version: '' @ e"
| "errorString (VersionMismatchError targetVersion sourceVersion) =
     ''source is running a more recent version than target. expected >= '' @ targetVersion
       @ '', got '' @ sourceVersion"
| "errorString (ImportError e) = ''failed to import database: '' @ e"

text \<open>
  What a call of a Go function that returns \<^verbatim>\<open>error\<close> can do: return \<^verbatim>\<open>nil\<close>, return an
  error, or not return because of a runtime panic.
\<close>

datatype result = Ok | Failed migrateError | Panicked

section \<open>The major-version comparison of runPreChecks\<close>

text \<open>
  Lines 129 to 136 of main.go: both version strings are split at the dots, the tokens at
  index 0 are read (the source's first) and compared as strings.
\<close>

definition compareVersions :: "string \<Rightarrow> string \<Rightarrow> result" where
  "compareVersions sourceVersion targetVersion =
     (let sourceSlice = Split sourceVersion (CHR ''.'');
          targetSlice = Split targetVersion (CHR ''.'')
      in case index sourceSlice 0 of
           None \<Rightarrow> Panicked
         | Some s0 \<Rightarrow>
             (case index targetSlice 0 of
                None \<Rightarrow> Panicked
              | Some t0 \<Rightarrow>
                  if string_greater s0 t0
                  then Failed (VersionMismatchError targetVersion sourceVersion)
                  else Ok))"

section \<open>The process environment and the options\<close>

text \<open>
  The environment is a map from variable names to values; \<^verbatim>\<open>os.Getenv\<close> returns the
  empty string for a variable that is not set, so an unset variable and one set to the
  empty string read the same.
\<close>

type_synonym env = "string \<rightharpoonup> string"

definition Getenv :: "env \<Rightarrow> string \<Rightarrow> string" where
  "Getenv e k = (case e k of None \<Rightarrow> [] | Some v \<Rightarrow> v)"

record migrationOpts =
  sourceURI :: string
  targetURI :: string
  noOwner :: bool
  clean :: bool
  create :: bool
  dataOnly :: bool

text \<open>
  The four boolean flags as \<^verbatim>\<open>flag.Parse\<close> leaves them. The model of \<^verbatim>\<open>main\<close> starts
  where \<^verbatim>\<open>flag.Parse\<close> has returned.
\<close>

record cmdFlags =
  noOwnerFlag :: bool
  cleanFlag :: bool
  createFlag :: bool
  dataOnlyFlag :: bool

definition defaultFlags :: cmdFlags where
  "defaultFlags =
     \<lparr>noOwnerFlag = True, cleanFlag = True, createFlag = True, dataOnlyFlag = False\<rparr>"

text \<open>
  The three places where \<^verbatim>\<open>main\<close> gives up while reading its configuration, with the
  line each one logs.
\<close>

datatype configError = SourceUnset | OperatorPasswordUnset | TargetUnset

fun configMessage :: "configError \<Rightarrow> string" where
  "configMessage SourceUnset = ''[error] SOURCE_DATABASE_URI secret must be set''"
| "configMessage OperatorPasswordUnset =
     ''[error] OPERATOR_PASSWORD secret must be set when FLY_APP_NAME is set''"
| "configMessage TargetUnset =
     ''[error] FLY_APP_NAME or TARGET_DATABASE_URI environment variable must be set''"

text \<open>The locator line 49 of main.go formats from the password and the application name.\<close>

definition derivedTargetURI :: "string \<Rightarrow> string \<Rightarrow> string" where
  "derivedTargetURI operatorPass appName =
     ''postgres://postgres:'' @ operatorPass @ ''@'' @ appName @ ''.internal:5432''"

text \<open>
  Lines 37 to 73 of \<^verbatim>\<open>main\<close>: the variable \<open>targetURI\<close> is declared empty, assigned the
  derived locator when \<^verbatim>\<open>FLY_APP_NAME\<close> is set, and then assigned the value of
  \<^verbatim>\<open>TARGET_DATABASE_URI\<close> whatever it held. Each \<open>let\<close> of \<open>targetURI\<close> below is one of
  these assignments, a later one hiding the earlier.
\<close>

definition resolveOptions :: "env \<Rightarrow> cmdFlags \<Rightarrow> configError + migrationOpts" where
  "resolveOptions e fl =
     (let sourceURI = Getenv e ''SOURCE_DATABASE_URI'' in
      if sourceURI = [] then Inl SourceUnset
      else
        let targetURI = [];
            operatorPass = Getenv e ''OPERATOR_PASSWORD'';
            appName = Getenv e ''FLY_APP_NAME'';
            targetURI = (if appName = [] then targetURI
                         else derivedTargetURI operatorPass appName);
            passwordMissing = (if appName = [] then False else operatorPass = [])
        in
        if passwordMissing then Inl OperatorPasswordUnset
        else
          let targetURI = Getenv e ''TARGET_DATABASE_URI'' in
          if targetURI = [] then Inl TargetUnset
          else Inr \<lparr>sourceURI = sourceURI, targetURI = targetURI,
                     noOwner = noOwnerFlag fl, clean = cleanFlag fl,
                     create = createFlag fl, dataOnly = dataOnlyFlag fl\<rparr>)"

section \<open>The database and the shell\<close>

text \<open>
  What main.go uses of a parsed connection string: the database it names and the connect
  timeout, which \<^verbatim>\<open>openConnection\<close> sets to five seconds. The host stands for the rest.
\<close>

record pgConfig =
  Host :: string
  Database :: string
  ConnectTimeout :: nat

text \<open>
  The outside world, as the answers it gives: \<^verbatim>\<open>pgx.ParseConfig\<close>,
  \<^verbatim>\<open>pgx.ConnectConfig\<close>, a query of one row scanned into a string, and the output of a
  shell command. \<open>Inl\<close> carries the text of the error. \<open>'c\<close> is the type of connections.
\<close>

record 'c world =
  ParseConfig :: "string \<Rightarrow> string + pgConfig"
  ConnectConfig :: "pgConfig \<Rightarrow> string + 'c"
  QueryRow :: "'c \<Rightarrow> string \<Rightarrow> string + string"
  Output :: "string \<Rightarrow> string + string"

text \<open>What a run does that can be observed, in the order it does it.\<close>

datatype 'c event =
    Log string
  | Connect pgConfig
  | Query 'c string
  | Close 'c
  | Exec string

fun isConnect :: "'c event \<Rightarrow> bool" where
  "isConnect (Connect conf) = True"
| "isConnect ev = False"




text \<open>
  A computation is the events it causes and its value. \<open>after es p\<close> is \<open>p\<close> run after the
  events \<open>es\<close>; \<open>deferred ev p\<close> is \<open>p\<close> with \<open>ev\<close> run when it is over, as a \<^verbatim>\<open>defer\<close> does,
  also when \<open>p\<close> ends in an error or a panic.
\<close>

definition after :: "'e list \<Rightarrow> 'e list \<times> 'r \<Rightarrow> 'e list \<times> 'r" where
  "after es p = (es @ fst p, snd p)"

definition deferred :: "'e \<Rightarrow> 'e list \<times> 'r \<Rightarrow> 'e list \<times> 'r" where
  "deferred ev p = (fst p @ [ev], snd p)"

definition openConnection :: "'c world \<Rightarrow> string \<Rightarrow> 'c event list \<times> (string + 'c)" where
  "openConnection w uri =
     (case ParseConfig w uri of
        Inl err \<Rightarrow> ([], Inl (''failed to parse uri: '' @ err))
      | Inr conf \<Rightarrow>
          (let conf = conf\<lparr>ConnectTimeout := 5\<rparr>
           in ([Connect conf], ConnectConfig w conf)))"

definition showVersion :: string where
  "showVersion = ''SHOW server_version;''"

definition runPreChecks :: "'c world \<Rightarrow> migrationOpts \<Rightarrow> 'c event list \<times> result" where
  "runPreChecks w opts =
     (case ParseConfig w (sourceURI opts) of
        Inl err \<Rightarrow> ([], Failed (ParseSourceError err))
      | Inr sourceConf \<Rightarrow>
          if Database sourceConf = [] then ([], Failed MissingDatabaseError)
          else
            (case openConnection w (sourceURI opts) of
               (es, Inl err) \<Rightarrow> (es, Failed (ConnectSourceError err))
             | (es, Inr sourceConn) \<Rightarrow>
                 after es (deferred (Close sourceConn)
                   (case openConnection w (targetURI opts) of
                      (es, Inl err) \<Rightarrow> (es, Failed (ConnectTargetError err))
                    | (es, Inr targetConn) \<Rightarrow>
                        after es (deferred (Close targetConn)
                          (after [Query sourceConn showVersion]
                            (case QueryRow w sourceConn showVersion of
                               Inl err \<Rightarrow> ([], Failed (QuerySourceVersionError err))
                             | Inr sourceVersion \<Rightarrow>
                                 after [Log (''[info] Source Postgres version: '' @ sourceVersion),
                                        Query targetConn showVersion]
                                   (case QueryRow w targetConn showVersion of
                                      Inl err \<Rightarrow> ([], Failed (QueryTargetVersionError err))
                                    | Inr targetVersion \<Rightarrow>
                                        ([Log (''[info] Target Postgres version: '' @ targetVersion)],
                                         compareVersions sourceVersion targetVersion)))))))))"

text \<open>Lines 140 to 152: the dump command, a switch appended for each flag that is set.\<close>

definition dumpCommand :: "migrationOpts \<Rightarrow> string" where
  "dumpCommand opts =
     (let dumpStr = ''pg_dump -d '' @ sourceURI opts;
          dumpStr = (if noOwner opts then dumpStr @ '' --no-owner'' else dumpStr);
          dumpStr = (if clean opts then dumpStr @ '' --clean'' else dumpStr);
          dumpStr = (if create opts then dumpStr @ '' --create'' else dumpStr);
          dumpStr = (if dataOnly opts then dumpStr @ '' --data-only'' else dumpStr)
      in dumpStr)"

definition pipeline :: "migrationOpts \<Rightarrow> string" where
  "pipeline opts =
     (let dumpStr = dumpCommand opts;
          restoreStr = ''psql -d '' @ targetURI opts
      in dumpStr @ '' | '' @ restoreStr)"

text \<open>\<^verbatim>\<open>runCommand\<close> hands the command to \<^verbatim>\<open>sh -c\<close> and returns its output or its error.\<close>

definition runCommand :: "'c world \<Rightarrow> string \<Rightarrow> 'c event list \<times> (string + string)" where
  "runCommand w cmdStr = ([Exec cmdStr], Output w cmdStr)"

definition runMigration :: "'c world \<Rightarrow> migrationOpts \<Rightarrow> 'c event list \<times> result" where
  "runMigration w opts =
     (let cmd = pipeline opts
      in case runCommand w cmd of
           (es, Inl err) \<Rightarrow> (es, Failed (ImportError err))
         | (es, Inr out) \<Rightarrow> (es, Ok))"

text \<open>
  Lines 37 to 90 of \<^verbatim>\<open>main\<close>, from the point where \<^verbatim>\<open>flag.Parse\<close> has returned with the
  flags \<open>fl\<close>: the events of the run and the exit code of the process. A call of
  \<^verbatim>\<open>os.Exit(1)\<close> ends the run with code 1, the return of \<^verbatim>\<open>main\<close> with code 0, and a
  panic that nothing recovers with code 2, the runtime writing the panic itself. The lines
  before, with the exits \<^verbatim>\<open>flag.Parse\<close> makes, are in \<open>process\<close> below.
\<close>

definition main :: "'c world \<Rightarrow> env \<Rightarrow> cmdFlags \<Rightarrow> 'c event list \<times> nat" where
  "main w e fl =
     (case resolveOptions e fl of
        Inl err \<Rightarrow> ([Log (configMessage err)], 1)
      | Inr opts \<Rightarrow>
          after [Log ''[info] Running pre-checks...'']
            (case runPreChecks w opts of
               (es, Failed err) \<Rightarrow> (es @ [Log (''[error] '' @ errorString err)], 1)
             | (es, Panicked) \<Rightarrow> (es, 2)
             | (es, Ok) \<Rightarrow>
                 after (es @ [Log ''[info] Pre-checks completed without issue'',
                              Log ''[info] Starting import process... (This could take a while)''])
                   (case runMigration w opts of
                      (es, Failed err) \<Rightarrow> (es @ [Log (''[error] '' @ errorString err)], 1)
                    | (es, Panicked) \<Rightarrow> (es, 2)
                    | (es, Ok) \<Rightarrow> (es @ [Log ''[info] Import complete!''], 0))))"

section \<open>The command line\<close>

text \<open>
  Lines 30 to 35 of \<^verbatim>\<open>main\<close> define four boolean flags and call \<^verbatim>\<open>flag.Parse\<close> on the
  arguments of the command line. The flag package ends the process itself when it cannot
  go on: with code 0 after printing the usage for \<^verbatim>\<open>-h\<close> or \<^verbatim>\<open>-help\<close>, with code 2 after
  printing the fault and the usage for a flag that is not defined or is malformed. It
  writes these texts itself, not through the logger.
\<close>

datatype flagOutcome = Parsed cmdFlags | HelpRequested | FlagError

text \<open>\<^verbatim>\<open>strconv.ParseBool\<close>, which reads the value of a boolean flag given as \<^verbatim>\<open>-name=value\<close>.\<close>

definition ParseBool :: "string \<Rightarrow> bool option" where
  "ParseBool s =
     (if s \<in> set [''1'', ''t'', ''T'', ''TRUE'', ''true'', ''True''] then Some True
      else if s \<in> set [''0'', ''f'', ''F'', ''FALSE'', ''false'', ''False''] then Some False
      else None)"

definition flagDefined :: "string \<Rightarrow> bool" where
  "flagDefined name = (name \<in> set [''no-owner'', ''clean'', ''create'', ''data-only''])"

definition setFlag :: "string \<Rightarrow> bool \<Rightarrow> cmdFlags \<Rightarrow> cmdFlags" where
  "setFlag name v fl =
     (if name = ''no-owner'' then fl\<lparr>noOwnerFlag := v\<rparr>
      else if name = ''clean'' then fl\<lparr>cleanFlag := v\<rparr>
      else if name = ''create'' then fl\<lparr>createFlag := v\<rparr>
      else if name = ''data-only'' then fl\<lparr>dataOnlyFlag := v\<rparr>
      else fl)"

text \<open>
  The loop of \<^verbatim>\<open>flag.Parse\<close>, one argument at a time. An argument that is shorter than two
  bytes or does not start with a minus ends the flags, and so does \<^verbatim>\<open>--\<close>. A flag has one
  or two minuses, then its name, then possibly \<^verbatim>\<open>=\<close> and a value; a name that is empty or
  starts with a minus or an equals sign is a fault. A boolean flag without a value is set
  to true.
\<close>

fun parseFlags :: "cmdFlags \<Rightarrow> string list \<Rightarrow> flagOutcome" where
  "parseFlags fl [] = Parsed fl"
| "parseFlags fl (s # args) =
     (if length s < 2 then Parsed fl
      else if hd s = CHR ''-'' then
        (if s = ''--'' then Parsed fl
         else
           let name = (if s ! 1 = CHR ''-'' then drop 2 s else drop 1 s) in
           if name = [] then FlagError
           else if hd name = CHR ''-'' then FlagError
           else if hd name = CHR ''='' then FlagError
           else
             let hasValue = (CHR ''='' \<in> set (tl name));
                 val = drop 1 (dropWhile (\<lambda>c. c \<noteq> CHR ''='') (tl name));
                 name = hd name # takeWhile (\<lambda>c. c \<noteq> CHR ''='') (tl name)
             in
             if flagDefined name then
               (if hasValue then
                  (case ParseBool val of
                     None \<Rightarrow> FlagError
                   | Some v \<Rightarrow> parseFlags (setFlag name v fl) args)
                else parseFlags (setFlag name True fl) args)
             else if name = ''help'' then HelpRequested
             else if name = ''h'' then HelpRequested
             else FlagError)
      else Parsed fl)"

definition flagParse :: "string list \<Rightarrow> flagOutcome" where
  "flagParse args = parseFlags defaultFlags args"

text \<open>
  The whole of \<^verbatim>\<open>main\<close>, lines 26 to 90, on the arguments of the command line: the flags are
  parsed, and what follows is \<open>main\<close> above on the flags as parsed.
\<close>

definition process :: "'c world \<Rightarrow> env \<Rightarrow> string list \<Rightarrow> 'c event list \<times> nat" where
  "process w e args =
     (case flagParse args of
        HelpRequested \<Rightarrow> ([], 0)
      | FlagError \<Rightarrow> ([], 2)
      | Parsed fl \<Rightarrow> main w e fl)"

section \<open>The specification's words\<close>

text \<open>
  The leading major-version token of a version string as the specification describes it:
  the string before the first dot, the whole string when it has no dot.
\<close>

definition leadingToken :: "string \<Rightarrow> string" where
  "leadingToken v = takeWhile (\<lambda>c. c \<noteq> CHR ''.'') v"

text \<open>
  The specification's lexical order of unparsed strings is the lexicographic order
  \<^const>\<open>ord_class.lexordp\<close> of the bytes, a byte being less than another when its code is.
  \<open>lexicallyGreater a b\<close> reads: \<open>a\<close> is lexically greater than \<open>b\<close>.
\<close>

definition lexicallyGreater :: "string \<Rightarrow> string \<Rightarrow> bool" where
  "lexicallyGreater a b = ord_class.lexordp b a"

text \<open>
  The switches the specification gives the dump command: one for each flag that is true,
  in the order no-owner, clean, create, data-only.
\<close>

definition switchesFor :: "migrationOpts \<Rightarrow> string list" where
  "switchesFor opts =
     map snd (filter fst
       [(noOwner opts, ''--no-owner''), (clean opts, ''--clean''),
        (create opts, ''--create''), (dataOnly opts, ''--data-only'')])"





section \<open>The end-to-end scenarios of the specification\<close>

text \<open>
  Two endpoints on the hosts h1 and h2, both reachable, answering the version query with
  \<open>sv\<close> and \<open>tv\<close>; connection 1 is to h1 and connection 2 to h2. A locator without a
  path names no database.
\<close>

definition scenarioWorld :: "string \<Rightarrow> string \<Rightarrow> nat world" where
  "scenarioWorld sv tv =
     \<lparr>ParseConfig = (\<lambda>uri.
        if uri = ''postgres://u:p@h1:5432/db''
        then Inr \<lparr>Host = ''h1'', Database = ''db'', ConnectTimeout = 0\<rparr>
        else if uri = ''postgres://u:p@h2:5432/db''
        then Inr \<lparr>Host = ''h2'', Database = ''db'', ConnectTimeout = 0\<rparr>
        else if uri = ''postgres://u:p@h1:5432''
        then Inr \<lparr>Host = ''h1'', Database = [], ConnectTimeout = 0\<rparr>
        else Inl ''cannot parse''),
      ConnectConfig = (\<lambda>conf.
        if Host conf = ''h1'' then Inr 1
        else if Host conf = ''h2'' then Inr 2
        else Inl ''no such host''),
      QueryRow = (\<lambda>c q. if c = 1 then Inr sv else Inr tv),
      Output = (\<lambda>cmd. Inr [])\<rparr>"

definition scenarioOpts :: migrationOpts where
  "scenarioOpts =
     \<lparr>sourceURI = ''postgres://u:p@h1:5432/db'', targetURI = ''postgres://u:p@h2:5432/db'',
       noOwner = True, clean = True, create = True, dataOnly = False\<rparr>"


text \<open>Scenario 3: no source locator.\<close>

definition noSourceEnv :: env where
  "noSourceEnv = map_of [(''TARGET_DATABASE_URI'', ''postgres://u:p@h2:5432/db'')]"

text \<open>Scenario 4: the application name alone, beside the source locator.\<close>

definition appNameEnv :: env where
  "appNameEnv =
     map_of [(''SOURCE_DATABASE_URI'', ''postgres://u:p@h1:5432/db''),
             (''FLY_APP_NAME'', ''myapp'')]"

text \<open>The application name alone, without a source locator.\<close>

definition appNameOnlyEnv :: env where
  "appNameOnlyEnv = map_of [(''FLY_APP_NAME'', ''myapp'')]"

text \<open>The application name with its password, and no explicit target.\<close>

definition appNamePasswordEnv :: env where
  "appNamePasswordEnv =
     map_of [(''SOURCE_DATABASE_URI'', ''postgres://u:p@h1:5432/db''),
             (''FLY_APP_NAME'', ''myapp''), (''OPERATOR_PASSWORD'', ''secret'')]"

text \<open>The application name with its password, and an explicit target as well.\<close>

definition bothTargetsEnv :: env where
  "bothTargetsEnv =
     map_of [(''SOURCE_DATABASE_URI'', ''postgres://u:p@h1:5432/db''),
             (''FLY_APP_NAME'', ''myapp''), (''OPERATOR_PASSWORD'', ''secret''),
             (''TARGET_DATABASE_URI'', ''postgres://u:p@h2:5432/db'')]"

text \<open>The application name without its password, and an explicit target.\<close>

definition appNameTargetEnv :: env where
  "appNameTargetEnv =
     map_of [(''SOURCE_DATABASE_URI'', ''postgres://u:p@h1:5432/db''),
             (''FLY_APP_NAME'', ''myapp''),
             (''TARGET_DATABASE_URI'', ''postgres://u:p@h2:5432/db'')]"





section \<open>Properties of the string functions\<close>

lemma genSplit_not_Nil: "genSplit acc s sep \<noteq> []"
  by (induction s arbitrary: acc) auto

lemma genSplit_hd:
  "hd (genSplit acc s sep) = acc @ takeWhile (\<lambda>c. c \<noteq> sep) s"
  by (induction s arbitrary: acc) auto

lemma Split_not_Nil: "Split s sep \<noteq> []"
  by (simp add: Split_def genSplit_not_Nil)

lemma index_Split_0: "index (Split s sep) 0 = Some (takeWhile (\<lambda>c. c \<noteq> sep) s)"
proof -
  have "Split s sep ! 0 = hd (Split s sep)"
    using Split_not_Nil [of s sep] by (simp add: hd_conv_nth)
  then show ?thesis
    using Split_not_Nil [of s sep] by (simp add: index_def Split_def genSplit_hd)
qed

text \<open>Go's comparison of strings is the lexicographic order of their bytes.\<close>

lemma string_less_lexordp: "string_less a b = ord_class.lexordp a b"
  by (induction a b rule: string_less.induct) (auto simp: less_char_def)

lemma string_greater_lexically: "string_greater a b = lexicallyGreater a b"
  by (simp add: string_greater_def lexicallyGreater_def string_less_lexordp)

lemma compareVersions_eq:
  "compareVersions sv tv =
     (if lexicallyGreater (leadingToken sv) (leadingToken tv)
      then Failed (VersionMismatchError tv sv) else Ok)"
  by (simp add: compareVersions_def index_Split_0 leadingToken_def string_greater_lexically)

lemma compareVersions_not_Panicked: "compareVersions sv tv \<noteq> Panicked"
  by (simp add: compareVersions_eq)

section \<open>Properties of the pre-checks and of the migration\<close>

lemma fst_after [simp]: "fst (after es p) = es @ fst p"
  by (simp add: after_def)

lemma snd_after [simp]: "snd (after es p) = snd p"
  by (simp add: after_def)

lemma fst_deferred [simp]: "fst (deferred ev p) = fst p @ [ev]"
  by (simp add: deferred_def)

lemma snd_deferred [simp]: "snd (deferred ev p) = snd p"
  by (simp add: deferred_def)


lemma runPreChecks_not_Panicked: "snd (runPreChecks w opts) \<noteq> Panicked"
  by (simp add: runPreChecks_def compareVersions_not_Panicked split: sum.splits prod.splits)


lemma runMigration_not_Panicked: "snd (runMigration w opts) \<noteq> Panicked"
  by (simp add: runMigration_def runCommand_def Let_def split: sum.splits)

lemma runMigration_events: "fst (runMigration w opts) = [Exec (pipeline opts)]"
  by (simp add: runMigration_def runCommand_def Let_def split: sum.splits)




lemma configMessage_error: "take 8 (configMessage err) = ''[error] ''"
  by (cases err) simp_all

section \<open>Properties of the whole run\<close>















section \<open>The answers of the scenarios\<close>







section \<open>The claims\<close>

text \<open>
  C1. Whenever both endpoints have answered the version query, with \<open>sv\<close> for the source and
  \<open>tv\<close> for the target, \<^verbatim>\<open>runPreChecks\<close> fails with the version-mismatch error exactly when
  the source's leading token (the string before the first dot) is lexically greater, as an
  unparsed string, than the target's, and returns without error otherwise. For the source
  version 9.2 and the target version 15.0 it fails, 9 being lexically greater than 15.
\<close>

theorem version_check_lexical:
  assumes "ParseConfig w (sourceURI opts) = Inr sconf"
    and "Database sconf \<noteq> []"
    and "ConnectConfig w (sconf\<lparr>ConnectTimeout := 5\<rparr>) = Inr sc"
    and "ParseConfig w (targetURI opts) = Inr tconf"
    and "ConnectConfig w (tconf\<lparr>ConnectTimeout := 5\<rparr>) = Inr tc"
    and "QueryRow w sc showVersion = Inr sv"
    and "QueryRow w tc showVersion = Inr tv"
  shows "snd (runPreChecks w opts) =
           (if lexicallyGreater (leadingToken sv) (leadingToken tv)
            then Failed (VersionMismatchError tv sv) else Ok)
         \<and> compareVersions ''9.2'' ''15.0'' = Failed (VersionMismatchError ''15.0'' ''9.2'')
         \<and> lexicallyGreater ''9'' ''15''"
proof -
  have "snd (runPreChecks w opts) = compareVersions sv tv"
    using assms by (simp add: runPreChecks_def openConnection_def)
  moreover have "lexicallyGreater ''9'' ''15''"
    by (simp add: lexicallyGreater_def less_char_def)
  moreover have "compareVersions ''9.2'' ''15.0'' = Failed (VersionMismatchError ''15.0'' ''9.2'')"
    by (simp add: compareVersions_eq leadingToken_def lexicallyGreater_def less_char_def)
  ultimately show ?thesis
    by (simp add: compareVersions_eq)
qed

theorem version_check_lexical_witness:
  "snd (runPreChecks (scenarioWorld ''9.2'' ''15.0'') scenarioOpts) =
     Failed (VersionMismatchError ''15.0'' ''9.2'')
   \<and> snd (runPreChecks (scenarioWorld ''14.2'' ''14.9'') scenarioOpts) = Ok"
proof -
  have a: "snd (runPreChecks (scenarioWorld ''9.2'' ''15.0'') scenarioOpts) =
     Failed (VersionMismatchError ''15.0'' ''9.2'')"
    using version_check_lexical [of "scenarioWorld ''9.2'' ''15.0''" scenarioOpts
      "\<lparr>Host = ''h1'', Database = ''db'', ConnectTimeout = 0\<rparr>" 1
      "\<lparr>Host = ''h2'', Database = ''db'', ConnectTimeout = 0\<rparr>" 2 "''9.2''" "''15.0''"]
    by (simp add: scenarioWorld_def scenarioOpts_def leadingToken_def lexicallyGreater_def
        less_char_def)
  have b: "snd (runPreChecks (scenarioWorld ''14.2'' ''14.9'') scenarioOpts) = Ok"
    using version_check_lexical [of "scenarioWorld ''14.2'' ''14.9''" scenarioOpts
      "\<lparr>Host = ''h1'', Database = ''db'', ConnectTimeout = 0\<rparr>" 1
      "\<lparr>Host = ''h2'', Database = ''db'', ConnectTimeout = 0\<rparr>" 2 "''14.2''" "''14.9''"]
    by (simp add: scenarioWorld_def scenarioOpts_def leadingToken_def lexicallyGreater_def
        less_char_def)
  from a b show ?thesis by simp
qed

text \<open>
  C2. For every combination of the four flags, the dump command is \<^verbatim>\<open>pg_dump -d\<close> and the
  source locator, followed by the switches of the flags that are true and no others, each
  after one space, in the order no-owner, clean, create, data-only; and the command
  \<^verbatim>\<open>runMigration\<close> executes is this dump command piped into the restore command.
\<close>

theorem dump_command_switches:
  "dumpCommand opts =
     ''pg_dump -d '' @ sourceURI opts @ concat (map (\<lambda>sw. CHR '' '' # sw) (switchesFor opts))
   \<and> fst (runMigration w opts) =
       [Exec (dumpCommand opts @ '' | psql -d '' @ targetURI opts)]"
proof -
  have "dumpCommand opts =
     ''pg_dump -d '' @ sourceURI opts @ concat (map (\<lambda>sw. CHR '' '' # sw) (switchesFor opts))"
    by (cases "noOwner opts"; cases "clean opts"; cases "create opts"; cases "dataOnly opts")
       (simp_all add: dumpCommand_def switchesFor_def)
  moreover have "fst (runMigration w opts) =
       [Exec (dumpCommand opts @ '' | psql -d '' @ targetURI opts)]"
    by (simp add: runMigration_events pipeline_def)
  ultimately show ?thesis by simp
qed

theorem dump_command_switches_witness:
  "dumpCommand scenarioOpts = ''pg_dump -d postgres://u:p@h1:5432/db --no-owner --clean --create''
   \<and> dumpCommand (scenarioOpts\<lparr>noOwner := False, create := False, dataOnly := True\<rparr>) =
       ''pg_dump -d postgres://u:p@h1:5432/db --clean --data-only''"
  using dump_command_switches [of scenarioOpts "scenarioWorld [] []"]
        dump_command_switches [of "scenarioOpts\<lparr>noOwner := False, create := False, dataOnly := True\<rparr>"
          "scenarioWorld [] []"]
  by (simp add: scenarioOpts_def switchesFor_def)

text \<open>
  C3, as stated, fails. With \<^verbatim>\<open>FLY_APP_NAME=myapp\<close>, no \<^verbatim>\<open>OPERATOR_PASSWORD\<close> and no
  \<^verbatim>\<open>TARGET_DATABASE_URI\<close> (and a source locator, so that the target is looked at), the
  configuration fails on the missing password, not on the missing target: the branch that
  requires an explicit target is not reached.
\<close>

theorem app_name_alone_counterexample:
  "resolveOptions appNameEnv defaultFlags = Inl OperatorPasswordUnset
   \<and> resolveOptions appNameEnv defaultFlags \<noteq> Inl TargetUnset"
  by (simp add: resolveOptions_def appNameEnv_def Getenv_def)

text \<open>
  C3, amended. Where \<^verbatim>\<open>FLY_APP_NAME\<close> is set and neither \<^verbatim>\<open>OPERATOR_PASSWORD\<close> nor
  \<^verbatim>\<open>TARGET_DATABASE_URI\<close> is, the configuration fails and the process exits with code 1;
  the error is the one for the missing password (the one for the missing source when
  \<^verbatim>\<open>SOURCE_DATABASE_URI\<close> is not set either): the password is checked before the target
  variable is read.
\<close>

theorem app_name_alone_fails_on_password:
  assumes "Getenv e ''FLY_APP_NAME'' \<noteq> []"
    and "Getenv e ''OPERATOR_PASSWORD'' = []"
    and "Getenv e ''TARGET_DATABASE_URI'' = []"
  shows "resolveOptions e fl =
           (if Getenv e ''SOURCE_DATABASE_URI'' = [] then Inl SourceUnset
            else Inl OperatorPasswordUnset)
         \<and> snd (main w e fl) = 1"
  using assms by (simp add: main_def resolveOptions_def Let_def)

theorem app_name_alone_fails_on_password_witness:
  "resolveOptions appNameEnv defaultFlags = Inl OperatorPasswordUnset
   \<and> snd (main (scenarioWorld ''14.2'' ''14.9'') appNameEnv defaultFlags) = 1"
  using app_name_alone_fails_on_password [of appNameEnv defaultFlags "scenarioWorld ''14.2'' ''14.9''"]
  by (simp add: appNameEnv_def Getenv_def)

text \<open>
  C4. In every environment, the target locator of the options \<^verbatim>\<open>main\<close> constructs is the
  value of \<^verbatim>\<open>TARGET_DATABASE_URI\<close>, whatever locator was derived from the application name
  and the password; and when \<^verbatim>\<open>TARGET_DATABASE_URI\<close> is unset or empty the configuration
  fails and the process exits with code 1, so the application name never yields a
  configuration on its own.
\<close>

theorem target_is_explicit_variable:
  "(resolveOptions e fl = Inr opts \<longrightarrow> targetURI opts = Getenv e ''TARGET_DATABASE_URI'')
   \<and> (Getenv e ''TARGET_DATABASE_URI'' = [] \<longrightarrow>
        (\<exists>err. resolveOptions e fl = Inl err \<and> main w e fl = ([Log (configMessage err)], 1)))"
  by (auto simp add: main_def resolveOptions_def Let_def split: if_splits)

theorem target_is_explicit_variable_witness:
  "targetURI scenarioOpts = Getenv bothTargetsEnv ''TARGET_DATABASE_URI''
   \<and> (\<exists>err. resolveOptions appNamePasswordEnv defaultFlags = Inl err
        \<and> main (scenarioWorld ''14.2'' ''14.9'') appNamePasswordEnv defaultFlags =
            ([Log (configMessage err)], 1))"
proof -
  have a: "resolveOptions bothTargetsEnv defaultFlags = Inr scenarioOpts"
    by (simp add: resolveOptions_def bothTargetsEnv_def Getenv_def defaultFlags_def
        scenarioOpts_def)
  have b: "Getenv appNamePasswordEnv ''TARGET_DATABASE_URI'' = []"
    by (simp add: appNamePasswordEnv_def Getenv_def)
  show ?thesis
    using target_is_explicit_variable [of bothTargetsEnv defaultFlags scenarioOpts
        "scenarioWorld ''14.2'' ''14.9''"]
      target_is_explicit_variable [of appNamePasswordEnv defaultFlags scenarioOpts
        "scenarioWorld ''14.2'' ''14.9''"] a b
    by simp
qed

text \<open>
  C5. Where the application name, the password and \<^verbatim>\<open>TARGET_DATABASE_URI\<close> are all set and
  not empty, the options hold the value of \<^verbatim>\<open>TARGET_DATABASE_URI\<close> as their target (given
  a source locator, without which there are no options), and nothing is logged about it:
  the first line of the run is the one that announces the pre-checks.
\<close>

theorem explicit_target_overrides_derived:
  assumes "Getenv e ''FLY_APP_NAME'' \<noteq> []"
    and "Getenv e ''OPERATOR_PASSWORD'' \<noteq> []"
    and "Getenv e ''TARGET_DATABASE_URI'' \<noteq> []"
  shows "resolveOptions e fl =
           (if Getenv e ''SOURCE_DATABASE_URI'' = [] then Inl SourceUnset
            else Inr \<lparr>sourceURI = Getenv e ''SOURCE_DATABASE_URI'',
                       targetURI = Getenv e ''TARGET_DATABASE_URI'',
                       noOwner = noOwnerFlag fl, clean = cleanFlag fl,
                       create = createFlag fl, dataOnly = dataOnlyFlag fl\<rparr>)
         \<and> take 1 (fst (main w e fl)) =
             (if Getenv e ''SOURCE_DATABASE_URI'' = [] then [Log (configMessage SourceUnset)]
              else [Log ''[info] Running pre-checks...''])"
  using assms by (simp add: main_def resolveOptions_def Let_def)

theorem explicit_target_overrides_derived_witness:
  "resolveOptions bothTargetsEnv defaultFlags = Inr scenarioOpts
   \<and> targetURI scenarioOpts \<noteq> derivedTargetURI ''secret'' ''myapp''
   \<and> take 1 (fst (main (scenarioWorld ''14.2'' ''14.9'') bothTargetsEnv defaultFlags)) =
       [Log ''[info] Running pre-checks...'']"
  using explicit_target_overrides_derived [of bothTargetsEnv defaultFlags
      "scenarioWorld ''14.2'' ''14.9''"]
  by (simp add: bothTargetsEnv_def Getenv_def defaultFlags_def scenarioOpts_def
      derivedTargetURI_def)

text \<open>
  C6, as stated, fails where \<^verbatim>\<open>SOURCE_DATABASE_URI\<close> is not set: the source is checked
  first, and the line logged is about the source, not about the password.
\<close>

theorem missing_password_counterexample:
  "Getenv appNameOnlyEnv ''FLY_APP_NAME'' = ''myapp''
   \<and> Getenv appNameOnlyEnv ''OPERATOR_PASSWORD'' = []
   \<and> main (scenarioWorld ''14.2'' ''14.9'') appNameOnlyEnv defaultFlags =
       ([Log ''[error] SOURCE_DATABASE_URI secret must be set''], 1)
   \<and> fst (main (scenarioWorld ''14.2'' ''14.9'') appNameOnlyEnv defaultFlags) \<noteq>
       [Log (configMessage OperatorPasswordUnset)]"
  by (simp add: main_def resolveOptions_def appNameOnlyEnv_def Getenv_def)

text \<open>
  C6, amended. In every environment where \<^verbatim>\<open>SOURCE_DATABASE_URI\<close> and \<^verbatim>\<open>FLY_APP_NAME\<close> are
  set and not empty and \<^verbatim>\<open>OPERATOR_PASSWORD\<close> is unset or empty, the run logs the line about
  the missing password and exits with code 1, whatever \<^verbatim>\<open>TARGET_DATABASE_URI\<close> holds, and
  no connection is attempted.
\<close>

theorem missing_password_exits:
  assumes "Getenv e ''SOURCE_DATABASE_URI'' \<noteq> []"
    and "Getenv e ''FLY_APP_NAME'' \<noteq> []"
    and "Getenv e ''OPERATOR_PASSWORD'' = []"
  shows "main w e fl =
           ([Log ''[error] OPERATOR_PASSWORD secret must be set when FLY_APP_NAME is set''], 1)
         \<and> filter isConnect (fst (main w e fl)) = []"
  using assms by (simp add: main_def resolveOptions_def Let_def)

theorem missing_password_exits_witness:
  "Getenv appNameTargetEnv ''TARGET_DATABASE_URI'' = ''postgres://u:p@h2:5432/db''
   \<and> main (scenarioWorld ''14.2'' ''14.9'') appNameTargetEnv defaultFlags =
       ([Log ''[error] OPERATOR_PASSWORD secret must be set when FLY_APP_NAME is set''], 1)"
  using missing_password_exits [of appNameTargetEnv "scenarioWorld ''14.2'' ''14.9''" defaultFlags]
  by (simp add: appNameTargetEnv_def Getenv_def)

text \<open>
  C7. In every environment where \<^verbatim>\<open>SOURCE_DATABASE_URI\<close> or \<^verbatim>\<open>TARGET_DATABASE_URI\<close> is unset
  or empty, the configuration fails, the run is the single line of that error and the
  exit code 1, and no connection is attempted.
\<close>

theorem missing_input_no_connection:
  assumes "Getenv e ''SOURCE_DATABASE_URI'' = [] \<or> Getenv e ''TARGET_DATABASE_URI'' = []"
  shows "\<exists>err. resolveOptions e fl = Inl err
           \<and> main w e fl = ([Log (configMessage err)], 1)
           \<and> filter isConnect (fst (main w e fl)) = []"
  using assms by (auto simp add: main_def resolveOptions_def Let_def)

theorem missing_input_no_connection_witness:
  "main (scenarioWorld ''14.2'' ''14.9'') noSourceEnv defaultFlags =
     ([Log ''[error] SOURCE_DATABASE_URI secret must be set''], 1)
   \<and> main (scenarioWorld ''14.2'' ''14.9'') appNamePasswordEnv defaultFlags =
     ([Log ''[error] FLY_APP_NAME or TARGET_DATABASE_URI environment variable must be set''], 1)"
proof -
  have a: "resolveOptions noSourceEnv defaultFlags = Inl SourceUnset"
    by (simp add: resolveOptions_def noSourceEnv_def Getenv_def)
  have b: "resolveOptions appNamePasswordEnv defaultFlags = Inl TargetUnset"
    by (simp add: resolveOptions_def appNamePasswordEnv_def Getenv_def)
  have c: "Getenv noSourceEnv ''SOURCE_DATABASE_URI'' = []"
    by (simp add: noSourceEnv_def Getenv_def)
  have d: "Getenv appNamePasswordEnv ''TARGET_DATABASE_URI'' = []"
    by (simp add: appNamePasswordEnv_def Getenv_def)
  show ?thesis
    using missing_input_no_connection [of noSourceEnv defaultFlags "scenarioWorld ''14.2'' ''14.9''"]
      missing_input_no_connection [of appNamePasswordEnv defaultFlags
        "scenarioWorld ''14.2'' ''14.9''"] a b c d
    by auto
qed







text \<open>
  C10. The major-version comparison is total: for every version string, the empty one and
  those without a dot included, splitting at the dots gives a list that is not empty, the
  read at index 0 gives the leading token, and the comparison ends in a pass or in the
  version-mismatch error, never in a panic; so \<^verbatim>\<open>runPreChecks\<close> never panics either.
\<close>

theorem version_compare_total:
  "Split v (CHR ''.'') \<noteq> []
   \<and> index (Split v (CHR ''.'')) 0 = Some (leadingToken v)
   \<and> Split [] (CHR ''.'') = [[]]
   \<and> compareVersions sv tv \<noteq> Panicked
   \<and> (compareVersions sv tv = Ok \<or> compareVersions sv tv = Failed (VersionMismatchError tv sv))
   \<and> snd (runPreChecks w opts) \<noteq> Panicked"
proof -
  have "Split [] (CHR ''.'') = [[]]"
    by (simp add: Split_def)
  then show ?thesis
    by (simp add: Split_not_Nil index_Split_0 leadingToken_def compareVersions_eq
        runPreChecks_not_Panicked)
qed

theorem version_compare_total_witness:
  "index (Split ''15'' (CHR ''.'')) 0 = Some ''15'' \<and> compareVersions [] [] \<noteq> Panicked"
  using version_compare_total [of "''15''" "[]" "[]" "scenarioWorld [] []" scenarioOpts]
  by (simp add: leadingToken_def)

end
